theory Spec2Isabelle
  imports Complex_Main "HOL-Library.Sublist"
begin

section \<open>Python strings\<close>

text \<open>
  A string is a list of characters; a character stands for a code point below 256, so
  the strings covered are the Latin-1 ones. \<open>isspace\<close> is \<open>str.isspace\<close> on that range
  (the characters \<open>str.strip()\<close> removes), \<open>is_linebreak\<close> the line boundaries of
  \<open>str.splitlines()\<close>, \<open>lower_char\<close> the lower-casing of \<open>str.lower()\<close>.
\<close>

definition isspace :: "char \<Rightarrow> bool" where
  "isspace c = (let n = (of_char c :: nat)
                in (9 \<le> n \<and> n \<le> 13) \<or> (28 \<le> n \<and> n \<le> 32) \<or> n = 133 \<or> n = 160)"

definition strip :: "string \<Rightarrow> string" where
  "strip s = rev (dropWhile isspace (rev (dropWhile isspace s)))"

definition is_linebreak :: "char \<Rightarrow> bool" where
  "is_linebreak c = (let n = (of_char c :: nat)
                     in (10 \<le> n \<and> n \<le> 13) \<or> (28 \<le> n \<and> n \<le> 30) \<or> n = 133)"

definition lower_char :: "char \<Rightarrow> char" where
  "lower_char c = (let n = (of_char c :: nat)
                   in if (65 \<le> n \<and> n \<le> 90) \<or> (192 \<le> n \<and> n \<le> 222 \<and> n \<noteq> 215)
                      then char_of (n + 32) else c)"

definition lower :: "string \<Rightarrow> string" where
  "lower s = map lower_char s"

text \<open>\<open>a or b\<close> on strings: \<open>a\<close> unless it is empty.\<close>

definition py_or :: "string \<Rightarrow> string \<Rightarrow> string" where
  "py_or a b = (if a \<noteq> [] then a else b)"

text \<open>\<open>s.startswith(p)\<close>.\<close>

definition startswith :: "string \<Rightarrow> string \<Rightarrow> bool" where
  "startswith s p = prefix p s"

text \<open>
  \<open>s.splitlines()\<close>: the text is cut at every line boundary, \<open>\r\n\<close> counting as one;
  the boundaries are dropped and a boundary at the very end opens no further line.
  \<open>cur\<close> holds the current line, reversed.
\<close>

fun splitlines_from :: "string \<Rightarrow> string \<Rightarrow> string list" where
  "splitlines_from cur [] = (if cur = [] then [] else [rev cur])"
| "splitlines_from cur (c # cs) =
     (if is_linebreak c
      then rev cur # splitlines_from []
             (if c = CHR 0x0D \<and> cs \<noteq> [] \<and> hd cs = CHR 0x0A then tl cs else cs)
      else splitlines_from (c # cur) cs)"

definition splitlines :: "string \<Rightarrow> string list" where
  "splitlines s = splitlines_from [] s"

text \<open>\<open>s.split(":", 1)\<close>: at most one cut, at the first colon.\<close>

definition split_colon1 :: "string \<Rightarrow> string list" where
  "split_colon1 s =
     (case dropWhile (\<lambda>c. c \<noteq> CHR '':'') s of
        [] \<Rightarrow> [s]
      | _ # r \<Rightarrow> [takeWhile (\<lambda>c. c \<noteq> CHR '':'') s, r])"

text \<open>Decimal digits of a number, as \<open>str(n)\<close> and an f-string print it.\<close>

fun show_nat :: "nat \<Rightarrow> string" where
  "show_nat n = (if n < 10 then [char_of (48 + n)]
                 else show_nat (n div 10) @ [char_of (48 + n mod 10)])"

declare show_nat.simps [simp del]

section \<open>Exceptions\<close>

text \<open>
  The exception classes the handlers tell apart, each with its message; for an
  \<open>HTTPError\<close> also the text of the response it carries. \<open>OtherError\<close> is any other
  subclass of \<open>Exception\<close> (a timeout, a JSON decoding error, an \<open>OSError\<close>).
\<close>

datatype exn =
    RuntimeError string
  | HTTPError string string
  | ConnectionError string
  | AttributeError string
  | TypeError string
  | IndexError string
  | OtherError string

fun str_of :: "exn \<Rightarrow> string" where
  "str_of (RuntimeError m) = m"
| "str_of (HTTPError m body) = m"
| "str_of (ConnectionError m) = m"
| "str_of (AttributeError m) = m"
| "str_of (TypeError m) = m"
| "str_of (IndexError m) = m"
| "str_of (OtherError m) = m"

section \<open>JSON values\<close>

text \<open>
  What \<open>json.loads\<close> and \<open>Response.json()\<close> return: \<open>None\<close>, a bool, an int, a finite
  float (by its exact value), a str, a list, or a dict given by its items (keys distinct).
\<close>

datatype json =
    JNull
  | JBool bool
  | JInt int
  | JFloat rat
  | JStr string
  | JArr "json list"
  | JObj "(string \<times> json) list"

fun truthy :: "json \<Rightarrow> bool" where
  "truthy JNull = False"
| "truthy (JBool b) = b"
| "truthy (JInt i) = (i \<noteq> 0)"
| "truthy (JFloat q) = (q \<noteq> 0)"
| "truthy (JStr s) = (s \<noteq> [])"
| "truthy (JArr xs) = (xs \<noteq> [])"
| "truthy (JObj kvs) = (kvs \<noteq> [])"

fun type_name :: "json \<Rightarrow> string" where
  "type_name JNull = ''NoneType''"
| "type_name (JBool b) = ''bool''"
| "type_name (JInt i) = ''int''"
| "type_name (JFloat q) = ''float''"
| "type_name (JStr s) = ''str''"
| "type_name (JArr xs) = ''list''"
| "type_name (JObj kvs) = ''dict''"

text \<open>The \<open>AttributeError\<close> of looking up a method the value's type does not have.\<close>

definition no_attribute :: "json \<Rightarrow> string \<Rightarrow> exn" where
  "no_attribute v a =
     AttributeError ([CHR 0x27] @ type_name v @ [CHR 0x27] @ '' object has no attribute ''
                     @ [CHR 0x27] @ a @ [CHR 0x27])"

text \<open>\<open>(res or {}).get("text", "").strip()\<close>, as both handlers read a reply.\<close>

definition reply_text :: "json \<Rightarrow> exn + string" where
  "reply_text res =
     (case (if truthy res then res else JObj []) of
        JObj kvs \<Rightarrow>
          (case (case map_of kvs ''text'' of None \<Rightarrow> JStr [] | Some v \<Rightarrow> v) of
             JStr s \<Rightarrow> Inr (strip s)
           | v \<Rightarrow> Inl (no_attribute v ''strip''))
      | v \<Rightarrow> Inl (no_attribute v ''get''))"

section \<open>Settings and the settings file\<close>

text \<open>
  The dataclass \<open>Settings\<close>. Its fields are annotated \<open>str\<close>, and the window keeps
  strings there; what \<open>load\<close> builds from a file holds whatever values the file gave,
  so the record is generic in the type of its fields.
\<close>

record 'v settings =
  host :: 'v
  api_key :: 'v
  voice_name :: 'v

definition defaults :: "json settings" where
  "defaults = \<lparr>host = JStr [], api_key = JStr [], voice_name = JStr []\<rparr>"

text \<open>
  The file \<open>settings.json\<close>, by what looking for it and reading it gives: it is not
  there; \<open>SETTINGS_FILE.exists()\<close> itself raises (\<open>Hidden\<close>: a \<open>PermissionError\<close> on a
  directory that may not be searched); it is there but \<open>read_text\<close> or \<open>json.loads\<close>
  raises; or it is there and parses to a JSON value.
  \<open>json.dumps\<close> followed by \<open>write_text\<close> leaves a file that parses back to the value
  dumped, which is how the \<open>json\<close> module treats a dict of strings.
\<close>

datatype settings_file = Missing | Hidden exn | Garbled exn | Holds json

text \<open>\<open>SETTINGS_FILE.exists()\<close>.\<close>

fun exists_file :: "settings_file \<Rightarrow> exn + bool" where
  "exists_file Missing = Inr False"
| "exists_file (Hidden e) = Inl e"
| "exists_file (Garbled e) = Inr True"
| "exists_file (Holds j) = Inr True"

text \<open>\<open>json.loads(SETTINGS_FILE.read_text(encoding="utf-8"))\<close>.\<close>

fun read_json :: "settings_file \<Rightarrow> exn + json" where
  "read_json Missing = Inl (OtherError ''No such file or directory'')"
| "read_json (Hidden e) = Inl e"
| "read_json (Garbled e) = Inl e"
| "read_json (Holds j) = Inr j"

definition field_names :: "string list" where
  "field_names = [''host'', ''api_key'', ''voice_name'']"

text \<open>
  \<open>cls(**v)\<close>: \<open>v\<close> must be a mapping and each of its keys a field of the dataclass; a
  field without an entry takes its default. The values are stored as they come.
\<close>

definition kwarg :: "(string \<times> json) list \<Rightarrow> string \<Rightarrow> json" where
  "kwarg kvs k = (case map_of kvs k of None \<Rightarrow> JStr [] | Some v \<Rightarrow> v)"

definition construct :: "json \<Rightarrow> exn + json settings" where
  "construct v =
     (case v of
        JObj kvs \<Rightarrow>
          if list_all (\<lambda>k. k \<in> set field_names) (map fst kvs)
          then Inr \<lparr>host = kwarg kvs ''host'', api_key = kwarg kvs ''api_key'',
                    voice_name = kwarg kvs ''voice_name''\<rparr>
          else Inl (TypeError ''got an unexpected keyword argument'')
      | _ \<Rightarrow> Inl (TypeError ''argument after ** must be a mapping''))"

text \<open>
  \<open>Settings.load\<close>: the test for the file stands before the \<open>try\<close>, so what it raises
  leaves \<open>load\<close>; every exception of the \<open>try\<close> block is swallowed.
\<close>

definition load :: "settings_file \<Rightarrow> exn + json settings" where
  "load f =
     (case exists_file f of
        Inl e \<Rightarrow> Inl e
      | Inr True \<Rightarrow>
          (case read_json f of
             Inl e \<Rightarrow> Inr defaults
           | Inr v \<Rightarrow> (case construct v of Inl e \<Rightarrow> Inr defaults | Inr s \<Rightarrow> Inr s))
      | Inr False \<Rightarrow> Inr defaults)"

text \<open>\<open>asdict(self)\<close> of a record of strings.\<close>

definition asdict :: "string settings \<Rightarrow> json" where
  "asdict s = JObj [(''host'', JStr (host s)), (''api_key'', JStr (api_key s)),
                    (''voice_name'', JStr (voice_name s))]"

text \<open>
  \<open>Settings.save\<close>: \<open>wr\<close> is what \<open>write_text\<close> raises, if anything (a full disk, a
  read-only directory); otherwise the file then holds the dumped dict.
\<close>

definition save :: "exn option \<Rightarrow> string settings \<Rightarrow> exn + settings_file" where
  "save wr s = (case wr of Some e \<Rightarrow> Inl e | None \<Rightarrow> Inr (Holds (asdict s)))"

section \<open>The gateway\<close>

record request =
  meth :: string
  url :: string
  headers :: "(string \<times> string) list"
  payload :: "(string \<times> string) list"
  files :: "(string \<times> string \<times> string \<times> string) list"
  timeout :: nat

text \<open>
  A response of the \<open>requests\<close> library: status line, final URL, the body as text, and
  what \<open>r.json()\<close> makes of the body (a value, or the exception it raises).
\<close>

record response =
  status_code :: nat
  reason :: string
  resp_url :: string
  body_text :: string
  body_json :: "exn + json"

text \<open>
  \<open>Response.raise_for_status()\<close> of \<open>requests\<close>: a 4xx or 5xx status raises an
  \<open>HTTPError\<close> whose message starts with the status code and which carries the response.
\<close>

definition raise_for_status :: "response \<Rightarrow> exn + unit" where
  "raise_for_status r =
     (if 400 \<le> status_code r \<and> status_code r < 500
      then Inl (HTTPError (show_nat (status_code r) @ '' Client Error: '' @ reason r
                           @ '' for url: '' @ resp_url r) (body_text r))
      else if 500 \<le> status_code r \<and> status_code r < 600
      then Inl (HTTPError (show_nat (status_code r) @ '' Server Error: '' @ reason r
                           @ '' for url: '' @ resp_url r) (body_text r))
      else Inr ())"

text \<open>
  The network is a function from the request issued to what \<open>requests.get\<close> or
  \<open>requests.post\<close> does with it: raise, or return a response.
\<close>

type_synonym network = "request \<Rightarrow> exn + response"

section \<open>The main window\<close>

text \<open>
  The attributes of \<open>MainWindow\<close> the handlers read and write: the settings, the text of
  the three line edits, the log pane and \<open>_last_spoken_text\<close>. The log pane is the list
  of the texts given to \<open>QTextEdit.append\<close>, one paragraph each, kept as plain text;
  \<open>toPlainText\<close> joins them with newlines. \<open>pyttsx3\<close> says whether the module of that
  name was imported. Three further fields record what leaves the window: \<open>started\<close>, the
  texts for which \<open>_speak_async\<close> started a worker thread; \<open>spoken\<close>, the calls of
  \<open>eng.say\<close> that returned, each with its text and the voice set for it (\<open>None\<close>: the
  voice of the engine as it comes); and \<open>sent\<close>, the HTTP requests issued.
\<close>

record window =
  settings :: "string settings"
  host_edit :: string
  key_edit :: string
  chat_input :: string
  log_pane :: "string list"
  last_spoken_text :: string
  pyttsx3 :: bool
  started :: "string list"
  spoken :: "(string \<times> string option) list"
  sent :: "request list"

fun toPlainText :: "string list \<Rightarrow> string" where
  "toPlainText [] = []"
| "toPlainText [p] = p"
| "toPlainText (p # q # ps) = p @ [CHR 0x0A] @ toPlainText (q # ps)"

text \<open>\<open>_log\<close>; \<open>now\<close> is \<open>time.strftime("[%H:%M:%S]")\<close> at the moment of the call.\<close>

definition log_msg :: "string \<Rightarrow> string \<Rightarrow> window \<Rightarrow> window" where
  "log_msg now msg w = w\<lparr>log_pane := log_pane w @ [now @ '' '' @ msg]\<rparr>"

text \<open>
  The speech engine, by what each call of the worker does in one run: \<open>pyttsx3.init()\<close>,
  \<open>say\<close>, \<open>runAndWait\<close> and \<open>stop\<close> raise or return; \<open>getProperty("voices")\<close> gives
  the voices, each with name and id, or raises (also when iterating what it gave
  raises); \<open>setProperty("voice", id)\<close> raises or returns. A call that never
  returns, and the wait for the lock that lets one worker at a time use the engine, are
  not part of this model.
\<close>

record engine =
  init_raises :: "exn option"
  voices :: "exn + (string \<times> string) list"
  set_voice_raises :: "exn option"
  say_raises :: "exn option"
  run_raises :: "exn option"
  stop_raises :: "exn option"

text \<open>
  The voice the worker sets: the first voice named as the settings say, if there is a name
  and such a voice; an exception on the way is swallowed and leaves the voice as it was.
\<close>

definition pick_voice :: "engine \<Rightarrow> window \<Rightarrow> string option" where
  "pick_voice eng w =
     (let target_name = strip (py_or (voice_name (settings w)) []) in
      if target_name \<noteq> []
      then (case voices eng of
              Inl e \<Rightarrow> None
            | Inr vs \<Rightarrow>
                (case find (\<lambda>v. fst v = target_name) vs of
                   None \<Rightarrow> None
                 | Some v \<Rightarrow>
                     (case set_voice_raises eng of Some e \<Rightarrow> None | None \<Rightarrow> Some (snd v))))
      else None)"


text \<open>
  \<open>_speak_async\<close>: nothing happens for an empty text or without the module; otherwise the
  text is remembered and a worker thread is started for it. The worker runs beside the
  handlers; what it does to the window, when it runs, is \<open>tts_worker\<close>.
\<close>

definition speak_async :: "string \<Rightarrow> window \<Rightarrow> window" where
  "speak_async txt w =
     (if txt = [] \<or> \<not> pyttsx3 w then w
      else w\<lparr>last_spoken_text := txt, started := started w @ [txt]\<rparr>)"

subsection \<open>Speak last\<close>

text \<open>
  The first loop of \<open>_speak_last_text\<close> over the lines it is given (the log lines,
  latest first): the content of the first line that, stripped, starts with one of the
  two prefixes and has something after its first colon.
\<close>

fun scan_prefixed :: "string list \<Rightarrow> exn + string option" where
  "scan_prefixed [] = Inr None"
| "scan_prefixed (line # rest) =
     (let s = strip line in
      if startswith s ''Assistant:'' \<or> startswith s ''Vision:''
      then (case split_colon1 s of
              _ # after # _ \<Rightarrow>
                (let content = strip after in
                 if content \<noteq> [] then Inr (Some content) else scan_prefixed rest)
            | _ \<Rightarrow> Inl (IndexError ''list index out of range''))
      else scan_prefixed rest)"

text \<open>The second loop: the first line that is not blank, stripped.\<close>

fun scan_nonblank :: "string list \<Rightarrow> string option" where
  "scan_nonblank [] = None"
| "scan_nonblank (line # rest) =
     (let s = strip line in if s \<noteq> [] then Some s else scan_nonblank rest)"

definition log_lines :: "window \<Rightarrow> string list" where
  "log_lines w = splitlines (toPlainText (log_pane w))"

text \<open>
  A handler ends by returning, which leaves a window (\<open>Inr\<close>), or by an exception that
  nothing caught (\<open>Inl\<close>).
\<close>

definition speak_last_text :: "string \<Rightarrow> window \<Rightarrow> exn + window" where
  "speak_last_text now w =
     (if last_spoken_text w \<noteq> [] then Inr (speak_async (last_spoken_text w) w)
      else
        (let lines = log_lines w in
         case scan_prefixed (rev lines) of
           Inl e \<Rightarrow> Inl e
         | Inr (Some content) \<Rightarrow> Inr (speak_async content w)
         | Inr None \<Rightarrow>
             (case scan_nonblank (rev lines) of
                Some s \<Rightarrow> Inr (speak_async s w)
              | None \<Rightarrow> Inr (log_msg now ''Nothing to speak yet.'' w))))"

subsection \<open>HTTP helpers\<close>

definition hk :: "window \<Rightarrow> exn + string \<times> string" where
  "hk w =
     (let h = py_or (strip (host_edit w)) (strip (host (settings w)));
          k = py_or (strip (key_edit w)) (strip (api_key (settings w)))
      in if h = [] \<or> k = [] then Inl (RuntimeError ''Host or API key missing.'')
         else Inr (h, k))"

definition voice_id :: "window \<Rightarrow> string" where
  "voice_id w = py_or (voice_name (settings w)) ''en_US-amy-medium''"

definition health_request :: "string \<Rightarrow> request" where
  "health_request h =
     \<lparr>meth = ''GET'', url = h @ ''/health'', headers = [], payload = [], files = [],
      timeout = 10\<rparr>"

definition chat_request :: "window \<Rightarrow> string \<Rightarrow> string \<Rightarrow> string \<Rightarrow> request" where
  "chat_request w h k txt =
     \<lparr>meth = ''POST'', url = h @ ''/chat'',
      headers = [(''Authorization'', ''Bearer '' @ k),
                 (''Content-Type'', ''application/json'')],
      payload = [(''text'', txt), (''voice_id'', voice_id w)],
      files = [], timeout = 60\<rparr>"

definition vision_request ::
  "window \<Rightarrow> string \<Rightarrow> string \<Rightarrow> string \<Rightarrow> string \<Rightarrow> string \<Rightarrow> string \<Rightarrow> request" where
  "vision_request w h k jpeg prompt mode target =
     \<lparr>meth = ''POST'', url = h @ ''/vision'',
      headers = [(''Authorization'', ''Bearer '' @ k)],
      payload = [(''prompt'', py_or prompt []),
                 (''mode'', lower (py_or mode ''scene'')),
                 (''target'', py_or target []),
                 (''voice_id'', voice_id w)],
      files = [(''image'', ''frame.jpg'', jpeg, ''image/jpeg'')], timeout = 90\<rparr>"

text \<open>
  Issuing a request: it is recorded as sent; then \<open>raise_for_status\<close> and \<open>r.json()\<close>
  on what came back.
\<close>

definition issue :: "network \<Rightarrow> request \<Rightarrow> window \<Rightarrow> (exn + json) \<times> window" where
  "issue net req w =
     (case net req of
        Inl e \<Rightarrow> Inl e
      | Inr r \<Rightarrow> (case raise_for_status r of Inl e \<Rightarrow> Inl e | Inr u \<Rightarrow> body_json r),
      w\<lparr>sent := sent w @ [req]\<rparr>)"

definition post_chat ::
  "network \<Rightarrow> string \<Rightarrow> string \<Rightarrow> string \<Rightarrow> window \<Rightarrow> (exn + json) \<times> window" where
  "post_chat net h k txt w = issue net (chat_request w h k txt) w"

text \<open>
  \<open>encode_jpeg\<close>, on what \<open>cv2.imencode\<close> does with the frame: raise, or return the
  flag and the buffer.
\<close>

definition encode_jpeg :: "exn + bool \<times> string \<Rightarrow> exn + string" where
  "encode_jpeg enc =
     (case enc of
        Inl e \<Rightarrow> Inl e
      | Inr (ok, buf) \<Rightarrow>
          if \<not> ok then Inl (RuntimeError ''Failed to encode frame as JPEG'') else Inr buf)"

definition post_vision ::
  "exn + bool \<times> string \<Rightarrow> network \<Rightarrow> string \<Rightarrow> string \<Rightarrow> string \<Rightarrow> string \<Rightarrow> string
     \<Rightarrow> window \<Rightarrow> (exn + json) \<times> window" where
  "post_vision enc net h k prompt mode target w =
     (case encode_jpeg enc of
        Inl e \<Rightarrow> (Inl e, w)
      | Inr jpeg \<Rightarrow> issue net (vision_request w h k jpeg prompt mode target) w)"

subsection \<open>The actions\<close>

definition test_health :: "string \<Rightarrow> network \<Rightarrow> window \<Rightarrow> exn + window" where
  "test_health now net w =
     (case hk w of
        Inl e \<Rightarrow> Inr (log_msg now (''Health check error: '' @ str_of e) w)
      | Inr (h, k) \<Rightarrow>
          (let w1 = w\<lparr>sent := sent w @ [health_request h]\<rparr> in
           case net (health_request h) of
             Inr r \<Rightarrow>
               Inr (log_msg now (''Health: '' @ show_nat (status_code r) @ '' ''
                                 @ body_text r) w1)
           | Inl e \<Rightarrow> Inr (log_msg now (''Health check error: '' @ str_of e) w1)))"

text \<open>
  \<open>_send_chat\<close>; \<open>now1\<close> and \<open>now2\<close> are the clock at its first and at its second call
  of \<open>_log\<close>.
\<close>

definition send_chat :: "string \<Rightarrow> string \<Rightarrow> network \<Rightarrow> window \<Rightarrow> exn + window" where
  "send_chat now1 now2 net w =
     (case hk w of
        Inl e \<Rightarrow> Inr (log_msg now1 (''Chat error: '' @ str_of e) w)
      | Inr (h, k) \<Rightarrow>
          (let txt = strip (chat_input w) in
           if txt = [] then Inr w
           else
             (let w1 = log_msg now1 (''You: '' @ txt) w;
                  (res, w2) = post_chat net h k txt w1
              in case (case res of Inl e \<Rightarrow> Inl e | Inr j \<Rightarrow> reply_text j) of
                   Inr msg \<Rightarrow>
                     if msg \<noteq> []
                     then Inr (speak_async msg (log_msg now2 (''Assistant: '' @ msg) w2))
                     else Inr (log_msg now2 ''Assistant: (empty)'' w2)
                 | Inl (HTTPError m body) \<Rightarrow>
                     Inr (log_msg now2 (''Chat error: '' @ m @ '' | Body: '' @ body) w2)
                 | Inl e \<Rightarrow> Inr (log_msg now2 (''Chat error: '' @ str_of e) w2))))"

text \<open>The prompt \<open>_vision_with_frame\<close> falls back on: a dict indexed by the mode.\<close>

definition default_prompt :: "string \<Rightarrow> string \<Rightarrow> string" where
  "default_prompt mode target =
     (case map_of
             [(''scene'', ''Describe the scene briefly for navigation.''),
              (''emotion'', ''Describe the likely facial expression and overall emotion.''),
              (''navigate'', ''How to navigate toward '' @ py_or target ''the target''
                             @ '' in the scene?''),
              (''objects'', ''List the main objects present with short positions.'')]
             (lower (py_or mode ''scene'')) of
        Some p \<Rightarrow> p
      | None \<Rightarrow> ''Describe the scene briefly for navigation.'')"

definition vision_with_frame ::
  "string \<Rightarrow> exn + bool \<times> string \<Rightarrow> network \<Rightarrow> string \<Rightarrow> string \<Rightarrow> string \<Rightarrow> window
     \<Rightarrow> exn + window" where
  "vision_with_frame now enc net mode target prompt w =
     (case hk w of
        Inl e \<Rightarrow> Inr (log_msg now (''Vision error: '' @ str_of e) w)
      | Inr (h, k) \<Rightarrow>
          (let user_prompt = py_or prompt (default_prompt mode target);
               (res, w1) = post_vision enc net h k user_prompt mode target w
           in case (case res of Inl e \<Rightarrow> Inl e | Inr j \<Rightarrow> reply_text j) of
                Inr txt \<Rightarrow>
                  if txt \<noteq> []
                  then Inr (speak_async txt (log_msg now (''Vision:'' @ [CHR 0x0A] @ txt) w1))
                  else Inr (log_msg now ''Vision: (empty response).'' w1)
              | Inl (HTTPError m body) \<Rightarrow>
                  Inr (log_msg now (''Vision error: '' @ m @ '' | Body: '' @ body) w1)
              | Inl (ConnectionError m) \<Rightarrow>
                  Inr (log_msg now (''Vision error: connection failed ('' @ m @ '')'') w1)
              | Inl e \<Rightarrow> Inr (log_msg now (''Vision error: '' @ str_of e) w1)))"

section \<open>Notions of the specification\<close>



text \<open>
  A JSON value matching the settings record, in the words of the specification: an
  object with the fields \<open>host\<close>, \<open>api_key\<close> and \<open>voice_name\<close>, each a string.
\<close>

definition matches_record :: "json \<Rightarrow> bool" where
  "matches_record j =
     (case j of
        JObj kvs \<Rightarrow>
          list_all (\<lambda>name. case map_of kvs name of Some (JStr s) \<Rightarrow> True | _ \<Rightarrow> False)
            field_names
      | _ \<Rightarrow> False)"

section \<open>Sample windows, files and gateways\<close>

definition ready_line :: string where
  "ready_line = ''[12:00:00] [Ready] Set Host + API key, then Save/Test.''"

text \<open>A window after start-up, host and key entered, \<open>hi\<close> typed into the chat line.\<close>

definition window_ready :: window where
  "window_ready =
     \<lparr>settings = \<lparr>host = ''http://h'', api_key = ''k'', voice_name = []\<rparr>,
      host_edit = ''http://h'', key_edit = ''k'', chat_input = ''hi'',
      log_pane = [ready_line], last_spoken_text = [], pyttsx3 = True,
      started = [], spoken = [], sent = []\<rparr>"





text \<open>Nothing entered, nothing saved, nothing logged.\<close>

definition window_blank :: window where
  "window_blank =
     \<lparr>settings = \<lparr>host = [], api_key = [], voice_name = []\<rparr>,
      host_edit = [], key_edit = [], chat_input = [],
      log_pane = [], last_spoken_text = [], pyttsx3 = True, started = [], spoken = [],
      sent = []\<rparr>"

text \<open>The host field cleared, over a saved host with blanks around it.\<close>

definition window_padded :: window where
  "window_padded =
     window_ready\<lparr>settings := \<lparr>host = '' http://h '', api_key = ''k'', voice_name = []\<rparr>,
                  host_edit := []\<rparr>"

text \<open>Gateways: one answers every request with the text \<open>hello\<close>, one with the empty
  text, one refuses with status 401.\<close>

definition gateway_hello :: network where
  "gateway_hello req =
     Inr \<lparr>status_code = 200, reason = ''OK'', resp_url = url req,
          body_text = ''{text: hello}'',
          body_json = Inr (JObj [(''text'', JStr ''hello'')])\<rparr>"

definition gateway_empty :: network where
  "gateway_empty req =
     Inr \<lparr>status_code = 200, reason = ''OK'', resp_url = url req,
          body_text = ''{text: }'',
          body_json = Inr (JObj [(''text'', JStr [])])\<rparr>"

definition gateway_denies :: network where
  "gateway_denies req =
     Inr \<lparr>status_code = 401, reason = ''Unauthorized'', resp_url = url req,
          body_text = ''{detail: Invalid API key}'',
          body_json = Inr (JObj [(''detail'', JStr ''Invalid API key'')])\<rparr>"



text \<open>A settings file in a directory that may not be searched.\<close>

definition file_hidden :: settings_file where
  "file_hidden = Hidden (OtherError ''[Errno 13] Permission denied'')"

text \<open>A settings file of the right shape whose host is a number.\<close>

definition file_host_number :: settings_file where
  "file_host_number =
     Holds (JObj [(''host'', JInt 5), (''api_key'', JStr ''k''), (''voice_name'', JStr [])])"

section \<open>Basic facts\<close>

lemma strip_Nil [simp]: "strip [] = []"
  by (simp add: strip_def)

lemma log_msg_fields [simp]:
  "settings (log_msg now m w) = settings w" "sent (log_msg now m w) = sent w"
  "spoken (log_msg now m w) = spoken w" "pyttsx3 (log_msg now m w) = pyttsx3 w"
  "started (log_msg now m w) = started w"
  "last_spoken_text (log_msg now m w) = last_spoken_text w"
  "log_pane (log_msg now m w) = log_pane w @ [now @ '' '' @ m]"
  by (simp_all add: log_msg_def)

lemma chat_request_log_msg [simp]: "chat_request (log_msg now m w) h k t = chat_request w h k t"
  by (simp add: chat_request_def voice_id_def)

lemma reply_text_field:
  "map_of kvs ''text'' = Some (JStr s) \<Longrightarrow> reply_text (JObj kvs) = Inr (strip s)"
  by (auto simp: reply_text_def)

section \<open>The worker\<close>

lemma pick_voice_settings: "settings v = settings w \<Longrightarrow> pick_voice eng v = pick_voice eng w"
  by (simp add: pick_voice_def)




section \<open>Chat\<close>

lemma post_chat_ok:
  assumes "net (chat_request w h k t) = Inr r" "raise_for_status r = Inr ()"
  shows "post_chat net h k t (log_msg now m w) =
           (body_json r, (log_msg now m w)\<lparr>sent := sent w @ [chat_request w h k t]\<rparr>)"
  using assms by (simp add: post_chat_def issue_def)

lemma send_chat_ok:
  assumes "hk w = Inr (h, k)"
    and "strip (chat_input w) \<noteq> []"
    and "net (chat_request w h k (strip (chat_input w))) = Inr r"
    and "raise_for_status r = Inr ()"
    and "body_json r = Inr (JObj kvs)"
    and "map_of kvs ''text'' = Some (JStr s)"
  shows "send_chat now1 now2 net w =
    (let w2 = (log_msg now1 (''You: '' @ strip (chat_input w)) w)
                \<lparr>sent := sent w @ [chat_request w h k (strip (chat_input w))]\<rparr>
     in if strip s \<noteq> []
        then Inr (speak_async (strip s) (log_msg now2 (''Assistant: '' @ strip s) w2))
        else Inr (log_msg now2 ''Assistant: (empty)'' w2))"
  using assms
  by (simp add: send_chat_def Let_def post_chat_ok reply_text_field)


lemma strip_hi: "strip ''hi'' = ''hi''"
  by (simp add: strip_def isspace_def)

lemma hk_window_ready: "hk window_ready = Inr (''http://h'', ''k'')"
  by (simp add: hk_def window_ready_def strip_def isspace_def py_or_def)





text \<open>
  Claim C3. A chat send whose POST to \<open>/chat\<close> succeeds with a JSON object whose
  \<open>text\<close> is the empty string appends \<open>Assistant: (empty)\<close> to the log (after the
  \<open>You: \<dots>\<close> entry) and starts no utterance: apart from the log and the request
  sent, the window is as before.
\<close>

theorem chat_empty_reply:
  assumes "hk w = Inr (h, k)"
    and "strip (chat_input w) \<noteq> []"
    and "net (chat_request w h k (strip (chat_input w))) = Inr r"
    and "raise_for_status r = Inr ()"
    and "body_json r = Inr (JObj kvs)"
    and "map_of kvs ''text'' = Some (JStr [])"
  shows "send_chat now1 now2 net w =
           Inr (w\<lparr>log_pane := log_pane w @ [now1 @ '' You: '' @ strip (chat_input w),
                                               now2 @ '' Assistant: (empty)''],
                   sent := sent w @ [chat_request w h k (strip (chat_input w))]\<rparr>)"
  using send_chat_ok [where net = net and w = w and s = "[]", OF assms, of now1 now2]
  by (simp add: Let_def log_msg_def)

text \<open>The window after start-up, \<open>hi\<close> sent to a gateway answering the empty text.\<close>

theorem chat_empty_reply_witness:
  "send_chat ''[12:00:01]'' ''[12:00:02]'' gateway_empty window_ready =
     Inr (window_ready
            \<lparr>log_pane := [ready_line, ''[12:00:01] You: hi'', ''[12:00:02] Assistant: (empty)''],
             sent := [chat_request window_ready ''http://h'' ''k'' ''hi'']\<rparr>)"
proof -
  have i: "strip (chat_input window_ready) = ''hi''"
    by (simp add: window_ready_def strip_hi)
  have "send_chat ''[12:00:01]'' ''[12:00:02]'' gateway_empty window_ready =
     Inr (window_ready
            \<lparr>log_pane := log_pane window_ready @
                 [''[12:00:01]'' @ '' You: '' @ strip (chat_input window_ready),
                  ''[12:00:02]'' @ '' Assistant: (empty)''],
             sent := sent window_ready @
                 [chat_request window_ready ''http://h'' ''k'' (strip (chat_input window_ready))]\<rparr>)"
    by (rule chat_empty_reply [where r = "\<lparr>status_code = 200, reason = ''OK'',
            resp_url = url (chat_request window_ready ''http://h'' ''k''
                              (strip (chat_input window_ready))),
            body_text = ''{text: }'',
            body_json = Inr (JObj [(''text'', JStr [])])\<rparr>"
          and kvs = "[(''text'', JStr [])]"])
       (simp_all add: hk_window_ready i gateway_empty_def raise_for_status_def)
  then show ?thesis
    by (simp add: i) (simp add: window_ready_def)
qed

section \<open>The settings file\<close>

text \<open>
  Claim C5. Whatever file \<open>save\<close> leaves for a record of strings, \<open>load\<close> reads the
  same host, key and voice name back from it.
\<close>

theorem save_load_roundtrip:
  assumes "save wr s = Inr f"
  shows "load f = Inr \<lparr>host = JStr (host s), api_key = JStr (api_key s),
                        voice_name = JStr (voice_name s)\<rparr>"
proof -
  from assms have f: "f = Holds (asdict s)"
    by (simp add: save_def split: option.splits)
  show ?thesis
    by (simp add: f load_def asdict_def construct_def field_names_def kwarg_def)
qed

text \<open>A record saved without a write error, and read back.\<close>

theorem save_load_roundtrip_witness:
  "save None \<lparr>host = ''http://h'', api_key = ''k'', voice_name = ''Zira''\<rparr>
     = Inr (Holds (asdict \<lparr>host = ''http://h'', api_key = ''k'', voice_name = ''Zira''\<rparr>)) \<and>
   load (Holds (asdict \<lparr>host = ''http://h'', api_key = ''k'', voice_name = ''Zira''\<rparr>))
     = Inr \<lparr>host = JStr ''http://h'', api_key = JStr ''k'', voice_name = JStr ''Zira''\<rparr>"
proof -
  have s: "save None \<lparr>host = ''http://h'', api_key = ''k'', voice_name = ''Zira''\<rparr>
     = Inr (Holds (asdict \<lparr>host = ''http://h'', api_key = ''k'', voice_name = ''Zira''\<rparr>))"
    by (simp add: save_def)
  from save_load_roundtrip [OF s] s show ?thesis by simp
qed

text \<open>
  Claim C4, as the code has it. Whenever the test for the file itself returns, \<open>load\<close>
  does not raise. It returns the record of three empty strings when the file is absent,
  when reading or parsing it raises, when it holds a JSON value that is not an object,
  and when it holds an object with a key that is not a field of the record.
\<close>

theorem load_defaults:
  "((\<forall>e. f \<noteq> Hidden e) \<longrightarrow> (\<exists>s. load f = Inr s)) \<and>
   (f = Missing \<longrightarrow> load f = Inr defaults) \<and>
   (\<forall>e. f = Garbled e \<longrightarrow> load f = Inr defaults) \<and>
   (\<forall>j. f = Holds j \<longrightarrow> (\<forall>kvs. j \<noteq> JObj kvs) \<longrightarrow> load f = Inr defaults) \<and>
   (\<forall>kvs k. f = Holds (JObj kvs) \<longrightarrow> k \<in> fst ` set kvs \<longrightarrow>
            k \<notin> {''host'', ''api_key'', ''voice_name''} \<longrightarrow> load f = Inr defaults)"
proof (intro conjI allI impI)
  assume "\<forall>e. f \<noteq> Hidden e"
  then show "\<exists>s. load f = Inr s"
    by (cases f) (auto simp: load_def split: sum.splits)
next
  assume "f = Missing" then show "load f = Inr defaults" by (simp add: load_def)
next
  fix e assume "f = Garbled e" then show "load f = Inr defaults" by (simp add: load_def)
next
  fix j assume "f = Holds j" "\<forall>kvs. j \<noteq> JObj kvs"
  then show "load f = Inr defaults"
    by (cases j) (simp_all add: load_def construct_def)
next
  fix kvs k
  assume "f = Holds (JObj kvs)" "k \<in> fst ` set kvs"
    "k \<notin> {''host'', ''api_key'', ''voice_name''}"
  then have "\<not> list_all (\<lambda>k. k \<in> set field_names) (map fst kvs)"
    by (auto simp: list_all_iff field_names_def)
  with \<open>f = Holds (JObj kvs)\<close> show "load f = Inr defaults"
    by (simp add: load_def construct_def)
qed

text \<open>An absent file, a file that is not JSON, a JSON list, an object with a key \<open>port\<close>.\<close>

theorem load_defaults_witness:
  "load Missing = Inr defaults \<and>
   load (Garbled (OtherError ''Expecting value'')) = Inr defaults \<and>
   load (Holds (JArr [])) = Inr defaults \<and>
   load (Holds (JObj [(''host'', JStr ''h''), (''port'', JInt 80)])) = Inr defaults \<and>
   (\<exists>s. load (Holds (JObj [(''host'', JStr ''h'')])) = Inr s)"
proof -
  have a: "load Missing = Inr defaults"
    using load_defaults [of Missing] by simp
  have b: "load (Garbled (OtherError ''Expecting value'')) = Inr defaults"
    using load_defaults [of "Garbled (OtherError ''Expecting value'')"] by simp
  have c: "load (Holds (JArr [])) = Inr defaults"
    using load_defaults [of "Holds (JArr [])"] by simp
  have "''port'' \<in> fst ` set [(''host'', JStr ''h''), (''port'', JInt 80)]" by simp
  moreover have "''port'' \<notin> {''host'', ''api_key'', ''voice_name''}" by simp
  ultimately have d: "load (Holds (JObj [(''host'', JStr ''h''), (''port'', JInt 80)])) = Inr defaults"
    using load_defaults [of "Holds (JObj [(''host'', JStr ''h''), (''port'', JInt 80)])"]
    by blast
  have e: "\<exists>s. load (Holds (JObj [(''host'', JStr ''h'')])) = Inr s"
    using load_defaults [of "Holds (JObj [(''host'', JStr ''h'')])"] by simp
  from a b c d e show ?thesis by simp
qed

text \<open>
  Claim C4 as stated fails in two ways. A file that is an object with the three fields
  where \<open>host\<close> is a number does not match the record of strings, and \<open>load\<close> returns
  the number as the host instead of the empty string. And where the test for the file
  raises, \<open>load\<close> raises.
\<close>

theorem load_defaults_counterexample:
  "\<not> matches_record (JObj [(''host'', JInt 5), (''api_key'', JStr ''k''), (''voice_name'', JStr [])]) \<and>
   file_host_number =
     Holds (JObj [(''host'', JInt 5), (''api_key'', JStr ''k''), (''voice_name'', JStr [])]) \<and>
   load file_host_number = Inr \<lparr>host = JInt 5, api_key = JStr ''k'', voice_name = JStr []\<rparr> \<and>
   load file_hidden = Inl (OtherError ''[Errno 13] Permission denied'')"
  by (simp add: matches_record_def field_names_def file_host_number_def file_hidden_def
      load_def construct_def kwarg_def)

section \<open>Speak last\<close>



















lemma log_lines_blank: "log_lines window_blank = []"
  by (simp add: log_lines_def window_blank_def splitlines_def)

text \<open>
  Claim C8. With no last spoken text and a log without lines, speak-last appends the
  entry \<open>Nothing to speak yet.\<close> to the log and starts no utterance.
\<close>

theorem speak_last_nothing:
  assumes "last_spoken_text w = []" and "log_lines w = []"
  shows "speak_last_text now w =
           Inr (w\<lparr>log_pane := log_pane w @ [now @ '' Nothing to speak yet.'']\<rparr>)"
  using assms by (simp add: speak_last_text_def log_msg_def)

text \<open>The blank window.\<close>

theorem speak_last_nothing_witness:
  "speak_last_text ''[12:00:00]'' window_blank =
     Inr (window_blank\<lparr>log_pane := [''[12:00:00] Nothing to speak yet.'']\<rparr>)"
proof -
  have "speak_last_text ''[12:00:00]'' window_blank =
     Inr (window_blank\<lparr>log_pane := log_pane window_blank @
                                       [''[12:00:00]'' @ '' Nothing to speak yet.'']\<rparr>)"
    by (rule speak_last_nothing) (simp_all add: log_lines_blank, simp add: window_blank_def)
  then show ?thesis by (simp add: window_blank_def)
qed

section \<open>Vision\<close>

lemma encode_ok: "encode_jpeg (Inr (True, b)) = Inr b"
  by (simp add: encode_jpeg_def)

lemma speak_async_sent [simp]: "sent (speak_async t w) = sent w"
  by (simp add: speak_async_def)

lemma vision_sent:
  assumes "hk w = Inr (h, k)" and "encode_jpeg enc = Inr jpeg"
  shows "\<exists>w'. vision_with_frame now enc net mode target prompt w = Inr w' \<and>
           sent w' = sent w @ [vision_request w h k jpeg
                                 (py_or prompt (default_prompt mode target)) mode target]"
  using assms
  by (simp add: vision_with_frame_def post_vision_def issue_def Let_def
      split: sum.splits exn.splits)

lemma default_prompt_table:
  "default_prompt mode target =
     (let m = lower (if mode = [] then ''scene'' else mode) in
      if m = ''scene'' then ''Describe the scene briefly for navigation.''
      else if m = ''emotion''
      then ''Describe the likely facial expression and overall emotion.''
      else if m = ''navigate''
      then ''How to navigate toward '' @ (if target = [] then ''the target'' else target)
           @ '' in the scene?''
      else if m = ''objects'' then ''List the main objects present with short positions.''
      else ''Describe the scene briefly for navigation.'')"
  by (simp add: default_prompt_def py_or_def Let_def)

lemma lower_navigate: "lower ''navigate'' = ''navigate''"
  by (simp add: lower_def lower_char_def)

lemma default_prompt_door:
  "default_prompt ''navigate'' ''the door'' = ''How to navigate toward the door in the scene?''"
  by (simp add: default_prompt_def py_or_def lower_navigate)

lemma door_in_prompt: "sublist ''the door'' ''How to navigate toward the door in the scene?''"
proof -
  have "sublist ''the door'' (''How to navigate toward '' @ ''the door'' @ '' in the scene?'')"
    by (rule sublist_appendI)
  then show ?thesis by simp
qed

text \<open>
  Claim C6. A vision request without an explicit prompt, once host and key are resolved
  and the frame is encoded, sends to \<open>/vision\<close> the prompt the table gives for the
  lower-cased mode (\<open>scene\<close> for an empty or unknown mode); for mode \<open>navigate\<close> and
  target \<open>the door\<close> that is the navigate prompt, which contains \<open>the door\<close>.
\<close>

theorem vision_default_prompt:
  assumes "hk w = Inr (h, k)" and "encode_jpeg enc = Inr jpeg"
  shows "\<exists>w' req p.
           vision_with_frame now enc net mode target [] w = Inr w' \<and>
           sent w' = sent w @ [req] \<and> url req = h @ ''/vision'' \<and>
           map_of (payload req) ''prompt'' = Some p \<and>
           p = (let m = lower (if mode = [] then ''scene'' else mode) in
                if m = ''scene'' then ''Describe the scene briefly for navigation.''
                else if m = ''emotion''
                then ''Describe the likely facial expression and overall emotion.''
                else if m = ''navigate''
                then ''How to navigate toward ''
                     @ (if target = [] then ''the target'' else target) @ '' in the scene?''
                else if m = ''objects''
                then ''List the main objects present with short positions.''
                else ''Describe the scene briefly for navigation.'') \<and>
           (mode = ''navigate'' \<and> target = ''the door'' \<longrightarrow>
              p = ''How to navigate toward the door in the scene?'' \<and> sublist ''the door'' p)"
proof -
  let ?p = "default_prompt mode target"
  let ?req = "vision_request w h k jpeg ?p mode target"
  from vision_sent [OF assms, of now net mode target "[]"]
  obtain w' where w': "vision_with_frame now enc net mode target [] w = Inr w'"
    "sent w' = sent w @ [?req]"
    by (auto simp: py_or_def)
  have u: "url ?req = h @ ''/vision''"
    by (simp add: vision_request_def)
  have m: "map_of (payload ?req) ''prompt'' = Some ?p"
    by (simp add: vision_request_def py_or_def)
  have d: "mode = ''navigate'' \<and> target = ''the door'' \<longrightarrow>
             ?p = ''How to navigate toward the door in the scene?'' \<and> sublist ''the door'' ?p"
    using default_prompt_door door_in_prompt by simp
  from w' u m d default_prompt_table [of mode target] show ?thesis
    by blast
qed

text \<open>The window after start-up, mode \<open>navigate\<close>, target \<open>the door\<close>.\<close>

theorem vision_default_prompt_witness:
  "\<exists>w' req.
     vision_with_frame ''[12:00:01]'' (Inr (True, ''JFIF'')) gateway_hello
       ''navigate'' ''the door'' [] window_ready = Inr w' \<and>
     sent w' = sent window_ready @ [req] \<and> url req = ''http://h/vision'' \<and>
     map_of (payload req) ''prompt'' = Some ''How to navigate toward the door in the scene?'' \<and>
     sublist ''the door'' ''How to navigate toward the door in the scene?''"
  using vision_default_prompt [OF hk_window_ready encode_ok,
      of "''[12:00:01]''" "''JFIF''" gateway_hello "''navigate''" "''the door''"]
  by auto

section \<open>HTTP errors from the vision endpoint\<close>

lemma raise_for_status_error:
  assumes "400 \<le> status_code r" and "status_code r < 600"
  shows "raise_for_status r =
           Inl (HTTPError (show_nat (status_code r)
                           @ (if status_code r < 500 then '' Client Error: ''
                              else '' Server Error: '')
                           @ reason r @ '' for url: '' @ resp_url r) (body_text r))"
  using assms by (simp add: raise_for_status_def)

text \<open>
  Claim C7. When the POST to \<open>/vision\<close> comes back with a 4xx or 5xx status, the
  handler returns normally, having appended exactly one entry to the log; the entry
  contains the status code and the body of the response, and no utterance is started
  (apart from the log and the request sent, the window is as before).
\<close>

theorem vision_http_error:
  assumes "hk w = Inr (h, k)" and "encode_jpeg enc = Inr jpeg"
    and "net (vision_request w h k jpeg (py_or prompt (default_prompt mode target))
                mode target) = Inr r"
    and "400 \<le> status_code r" and "status_code r < 600"
  shows "let line = now @ '' Vision error: '' @ show_nat (status_code r)
                    @ (if status_code r < 500 then '' Client Error: ''
                       else '' Server Error: '')
                    @ reason r @ '' for url: '' @ resp_url r
                    @ '' | Body: '' @ body_text r
         in vision_with_frame now enc net mode target prompt w =
              Inr (w\<lparr>log_pane := log_pane w @ [line],
                      sent := sent w @ [vision_request w h k jpeg
                                (py_or prompt (default_prompt mode target)) mode target]\<rparr>) \<and>
            sublist (show_nat (status_code r)) line \<and> sublist (body_text r) line"
proof -
  let ?m = "show_nat (status_code r)
            @ (if status_code r < 500 then '' Client Error: '' else '' Server Error: '')
            @ reason r @ '' for url: '' @ resp_url r"
  let ?line = "now @ '' Vision error: '' @ ?m @ '' | Body: '' @ body_text r"
  have run: "vision_with_frame now enc net mode target prompt w =
          Inr (w\<lparr>log_pane := log_pane w @ [?line],
                  sent := sent w @ [vision_request w h k jpeg
                            (py_or prompt (default_prompt mode target)) mode target]\<rparr>)"
    using assms(1-3) raise_for_status_error [OF assms(4,5)]
    by (simp add: vision_with_frame_def post_vision_def issue_def Let_def log_msg_def)
  have "sublist (show_nat (status_code r))
          ((now @ '' Vision error: '') @ show_nat (status_code r)
           @ ((if status_code r < 500 then '' Client Error: '' else '' Server Error: '')
              @ reason r @ '' for url: '' @ resp_url r @ '' | Body: '' @ body_text r))"
    by (rule sublist_appendI)
  then have s1: "sublist (show_nat (status_code r)) ?line" by simp
  have "sublist (body_text r) ((now @ '' Vision error: '' @ ?m @ '' | Body: '') @ body_text r @ [])"
    by (rule sublist_appendI)
  then have s2: "sublist (body_text r) ?line" by simp
  from run s1 s2 show ?thesis by (simp add: Let_def)
qed

lemma show_nat_401: "show_nat 401 = ''401''"
  by code_simp

lemma scene_prompt: "default_prompt ''scene'' [] = ''Describe the scene briefly for navigation.''"
  by (simp add: default_prompt_def py_or_def lower_def lower_char_def)

text \<open>The window after start-up, against a gateway that answers 401.\<close>

theorem vision_http_error_witness:
  "vision_with_frame ''[12:00:01]'' (Inr (True, ''JFIF'')) gateway_denies
     ''scene'' [] [] window_ready =
   Inr (window_ready
          \<lparr>log_pane := [ready_line,
             ''[12:00:01] Vision error: 401 Client Error: Unauthorized for url: http://h/vision | Body: {detail: Invalid API key}''],
           sent := [vision_request window_ready ''http://h'' ''k'' ''JFIF''
                      ''Describe the scene briefly for navigation.'' ''scene'' []]\<rparr>) \<and>
   sublist ''401''
     ''[12:00:01] Vision error: 401 Client Error: Unauthorized for url: http://h/vision | Body: {detail: Invalid API key}'' \<and>
   sublist ''{detail: Invalid API key}''
     ''[12:00:01] Vision error: 401 Client Error: Unauthorized for url: http://h/vision | Body: {detail: Invalid API key}''"
proof -
  let ?req = "vision_request window_ready ''http://h'' ''k'' ''JFIF''
                (py_or [] (default_prompt ''scene'' [])) ''scene'' []"
  let ?r = "\<lparr>status_code = 401, reason = ''Unauthorized'', resp_url = url ?req,
          body_text = ''{detail: Invalid API key}'',
          body_json = Inr (JObj [(''detail'', JStr ''Invalid API key'')])\<rparr>"
  have n: "gateway_denies ?req = Inr ?r"
    by (simp add: gateway_denies_def)
  have s: "400 \<le> status_code ?r" "status_code ?r < 600" by simp_all
  have u: "url (vision_request w h k j p m t) = h @ ''/vision''" for w h k j p m t
    by (simp add: vision_request_def)
  from vision_http_error [where net = gateway_denies and r = ?r and now = "''[12:00:01]''",
      OF hk_window_ready encode_ok n s]
  show ?thesis
    by (simp add: Let_def u show_nat_401 py_or_def scene_prompt)
       (simp add: window_ready_def)
qed

section \<open>Host and key\<close>

text \<open>
  Claim C10, as the code has it. \<open>_hk\<close> resolves host and key each to the stripped
  text of its edit field if that is not empty, and to the stripped saved value otherwise.
  It returns the pair when both are non-empty and raises when either is empty; in that
  case each of the health, chat and vision actions appends its one prefixed error line
  and sends no request (the window changes in the log only).
\<close>

theorem hk_resolution:
  "let h = (if strip (host_edit w) \<noteq> [] then strip (host_edit w)
            else strip (host (settings w)));
       k = (if strip (key_edit w) \<noteq> [] then strip (key_edit w)
            else strip (api_key (settings w)))
   in (h \<noteq> [] \<and> k \<noteq> [] \<longrightarrow> hk w = Inr (h, k)) \<and>
      (h = [] \<or> k = [] \<longrightarrow>
         hk w = Inl (RuntimeError ''Host or API key missing.'') \<and>
         test_health now net w =
           Inr (w\<lparr>log_pane := log_pane w
                      @ [now @ '' Health check error: Host or API key missing.'']\<rparr>) \<and>
         send_chat now now2 net w =
           Inr (w\<lparr>log_pane := log_pane w
                      @ [now @ '' Chat error: Host or API key missing.'']\<rparr>) \<and>
         vision_with_frame now enc net mode target prompt w =
           Inr (w\<lparr>log_pane := log_pane w
                      @ [now @ '' Vision error: Host or API key missing.'']\<rparr>))"
  by (simp add: Let_def hk_def py_or_def test_health_def send_chat_def
      vision_with_frame_def log_msg_def)

text \<open>The window after start-up resolves; the blank window does not.\<close>

theorem hk_resolution_witness:
  "hk window_ready = Inr (''http://h'', ''k'') \<and>
   hk window_blank = Inl (RuntimeError ''Host or API key missing.'') \<and>
   test_health ''[12:00:01]'' gateway_hello window_blank =
     Inr (window_blank\<lparr>log_pane :=
            [''[12:00:01] Health check error: Host or API key missing.'']\<rparr>) \<and>
   send_chat ''[12:00:01]'' ''[12:00:02]'' gateway_hello window_blank =
     Inr (window_blank\<lparr>log_pane :=
            [''[12:00:01] Chat error: Host or API key missing.'']\<rparr>) \<and>
   vision_with_frame ''[12:00:01]'' (Inr (True, ''JFIF'')) gateway_hello
       ''scene'' [] [] window_blank =
     Inr (window_blank\<lparr>log_pane :=
            [''[12:00:01] Vision error: Host or API key missing.'']\<rparr>)"
proof -
  have r: "strip (host_edit window_ready) = ''http://h''" "strip (key_edit window_ready) = ''k''"
    by (simp_all add: window_ready_def strip_def isspace_def)
  have b: "strip (host_edit window_blank) = []" "strip (host (settings window_blank)) = []"
    "log_pane window_blank = []"
    by (simp_all add: window_blank_def)
  from hk_resolution [of window_ready] r
  have 1: "hk window_ready = Inr (''http://h'', ''k'')"
    by (simp add: Let_def)
  from hk_resolution [of window_blank "''[12:00:01]''" gateway_hello "''[12:00:02]''"
      "Inr (True, ''JFIF'')" "''scene''" "[]" "[]"] b
  have 2: "hk window_blank = Inl (RuntimeError ''Host or API key missing.'') \<and>
   test_health ''[12:00:01]'' gateway_hello window_blank =
     Inr (window_blank\<lparr>log_pane :=
            [''[12:00:01] Health check error: Host or API key missing.'']\<rparr>) \<and>
   send_chat ''[12:00:01]'' ''[12:00:02]'' gateway_hello window_blank =
     Inr (window_blank\<lparr>log_pane :=
            [''[12:00:01] Chat error: Host or API key missing.'']\<rparr>) \<and>
   vision_with_frame ''[12:00:01]'' (Inr (True, ''JFIF'')) gateway_hello
       ''scene'' [] [] window_blank =
     Inr (window_blank\<lparr>log_pane :=
            [''[12:00:01] Vision error: Host or API key missing.'']\<rparr>)"
    by (simp add: Let_def)
  from 1 2 show ?thesis by simp
qed

text \<open>
  Claim C10 as stated fails on the fallback: with the host field empty and a saved host
  with blanks around it, \<open>_hk\<close> returns the host without the blanks, not the saved
  value.
\<close>

theorem hk_resolution_counterexample:
  "strip (host_edit window_padded) = [] \<and>
   host (settings window_padded) = '' http://h '' \<and>
   hk window_padded = Inr (''http://h'', ''k'')"
  by (simp add: window_padded_def window_ready_def hk_def py_or_def strip_def isspace_def)

end
